theory Spec2Isabelle
  imports Complex_Main
begin

section \<open>JavaScript numbers\<close>

text \<open>
  The helix code of \<^verbatim>\<open>src/App.jsx\<close> computes with JavaScript numbers. The model keeps
  the special values that the code can produce (a division by zero gives an infinity or
  NaN) and idealises the finite ones: a finite number is a real, and arithmetic on finite
  numbers is exact (rounding, overflow and the sign of zero are not modelled).
\<close>

datatype jsnum = Num real | PosInf | NegInf | NaN

fun js_neg :: "jsnum \<Rightarrow> jsnum" where
  "js_neg (Num a) = Num (- a)"
| "js_neg PosInf = NegInf"
| "js_neg NegInf = PosInf"
| "js_neg NaN = NaN"

fun js_add :: "jsnum \<Rightarrow> jsnum \<Rightarrow> jsnum" where
  "js_add (Num a) (Num b) = Num (a + b)"
| "js_add (Num a) PosInf = PosInf"
| "js_add (Num a) NegInf = NegInf"
| "js_add PosInf (Num b) = PosInf"
| "js_add NegInf (Num b) = NegInf"
| "js_add PosInf PosInf = PosInf"
| "js_add NegInf NegInf = NegInf"
| "js_add PosInf NegInf = NaN"
| "js_add NegInf PosInf = NaN"
| "js_add NaN b = NaN"
| "js_add a NaN = NaN"

definition js_sub :: "jsnum \<Rightarrow> jsnum \<Rightarrow> jsnum" where
  "js_sub a b = js_add a (js_neg b)"

text \<open>The sign of an infinite product or quotient; a zero factor gives NaN.\<close>

definition signed_inf :: "real \<Rightarrow> jsnum" where
  "signed_inf s = (if 0 < s then PosInf else if s < 0 then NegInf else NaN)"

fun js_mul :: "jsnum \<Rightarrow> jsnum \<Rightarrow> jsnum" where
  "js_mul (Num a) (Num b) = Num (a * b)"
| "js_mul (Num a) PosInf = signed_inf a"
| "js_mul (Num a) NegInf = signed_inf (- a)"
| "js_mul PosInf (Num b) = signed_inf b"
| "js_mul NegInf (Num b) = signed_inf (- b)"
| "js_mul PosInf PosInf = PosInf"
| "js_mul NegInf NegInf = PosInf"
| "js_mul PosInf NegInf = NegInf"
| "js_mul NegInf PosInf = NegInf"
| "js_mul NaN b = NaN"
| "js_mul a NaN = NaN"

fun js_div :: "jsnum \<Rightarrow> jsnum \<Rightarrow> jsnum" where
  "js_div (Num a) (Num b) = (if b = 0 then signed_inf a else Num (a / b))"
| "js_div (Num a) PosInf = Num 0"
| "js_div (Num a) NegInf = Num 0"
| "js_div PosInf (Num b) = (if 0 \<le> b then PosInf else NegInf)"
| "js_div NegInf (Num b) = (if 0 \<le> b then NegInf else PosInf)"
| "js_div PosInf PosInf = NaN"
| "js_div NegInf NegInf = NaN"
| "js_div PosInf NegInf = NaN"
| "js_div NegInf PosInf = NaN"
| "js_div NaN b = NaN"
| "js_div a NaN = NaN"

text \<open>\<^verbatim>\<open>Math.sqrt\<close>.\<close>

fun js_sqrt :: "jsnum \<Rightarrow> jsnum" where
  "js_sqrt (Num a) = (if a < 0 then NaN else Num (sqrt a))"
| "js_sqrt PosInf = PosInf"
| "js_sqrt NegInf = NaN"
| "js_sqrt NaN = NaN"


section \<open>three.js values\<close>

text \<open>
  \<^verbatim>\<open>THREE.Vector3\<close> and the three methods the component calls on it whose result is
  fixed by the library's documentation: \<^verbatim>\<open>addVectors\<close> and \<^verbatim>\<open>subVectors\<close> work
  componentwise, \<^verbatim>\<open>multiplyScalar\<close> scales each component, \<^verbatim>\<open>length\<close> is the
  Euclidean length.
\<close>

record Vector3 =
  vx :: jsnum
  vy :: jsnum
  vz :: jsnum

definition addVectors :: "Vector3 \<Rightarrow> Vector3 \<Rightarrow> Vector3" where
  "addVectors a b =
     \<lparr>vx = js_add (vx a) (vx b), vy = js_add (vy a) (vy b), vz = js_add (vz a) (vz b)\<rparr>"

definition subVectors :: "Vector3 \<Rightarrow> Vector3 \<Rightarrow> Vector3" where
  "subVectors a b =
     \<lparr>vx = js_sub (vx a) (vx b), vy = js_sub (vy a) (vy b), vz = js_sub (vz a) (vz b)\<rparr>"

definition multiplyScalar :: "Vector3 \<Rightarrow> real \<Rightarrow> Vector3" where
  "multiplyScalar v s =
     \<lparr>vx = js_mul (vx v) (Num s), vy = js_mul (vy v) (Num s), vz = js_mul (vz v) (Num s)\<rparr>"

definition vlength :: "Vector3 \<Rightarrow> jsnum" where
  "vlength v =
     js_sqrt (js_add (js_add (js_mul (vx v) (vx v)) (js_mul (vy v) (vy v)))
                     (js_mul (vz v) (vz v)))"

text \<open>\<^verbatim>\<open>THREE.CatmullRomCurve3\<close> keeps the array of control points it is built from.\<close>

datatype CatmullRomCurve3 = CatmullRomCurve3 (points: "Vector3 list")

section \<open>The geometry builder of \<^verbatim>\<open>DNAHelix\<close>\<close>

text \<open>
  The props of the component. They are finite numbers here; the defaults of the
  destructuring pattern are \<open>turns = 3\<close>, \<open>radius = 2\<close>, \<open>height = 15\<close>.
\<close>

record HelixConfig =
  turns :: real
  radius :: real
  height :: real


record Rung =
  rung_start :: Vector3
  rung_end :: Vector3

record HelixGeometry =
  backbone1Curve :: CatmullRomCurve3
  backbone2Curve :: CatmullRomCurve3
  rungs :: "Rung list"

definition pointsPerTurn :: real where
  "pointsPerTurn = 40"

text \<open>
  The \<^verbatim>\<open>for (let i = 0; i <= totalPoints; i++)\<close> loop. The three arrays the body pushes
  to are the accumulator; \<open>heightStep\<close> is the one local that need not be finite.
\<close>

function helix_loop ::
  "real \<Rightarrow> jsnum \<Rightarrow> real \<Rightarrow> real \<Rightarrow> real \<Rightarrow> nat \<Rightarrow>
   Vector3 list \<times> Vector3 list \<times> Rung list \<Rightarrow> Vector3 list \<times> Vector3 list \<times> Rung list"
  where
  "helix_loop totalPoints heightStep angleStep rad hgt i (b1Points, b2Points, rungData) =
     (if real i \<le> totalPoints then
        let angle = real i * angleStep;
            y = js_sub (js_mul (Num (real i)) heightStep) (Num (hgt / 2));
            x1 = cos angle * rad;
            z1 = sin angle * rad;
            x2 = cos (angle + pi) * rad;
            z2 = sin (angle + pi) * rad;
            p1 = \<lparr>vx = Num x1, vy = y, vz = Num z1\<rparr>;
            p2 = \<lparr>vx = Num x2, vy = y, vz = Num z2\<rparr>
        in helix_loop totalPoints heightStep angleStep rad hgt (Suc i)
             (b1Points @ [p1], b2Points @ [p2],
              if i mod 4 = 0 then rungData @ [\<lparr>rung_start = p1, rung_end = p2\<rparr>]
              else rungData)
      else (b1Points, b2Points, rungData))"
  by pat_completeness auto
termination
proof (relation "measure (\<lambda>(totalPoints, _, _, _, _, i, _). nat (\<lfloor>totalPoints\<rfloor> + 1) - i)")
  show "wf (measure (\<lambda>(totalPoints :: real, _ :: jsnum, _ :: real, _ :: real, _ :: real,
              i :: nat, _ :: Vector3 list \<times> Vector3 list \<times> Rung list).
            nat (\<lfloor>totalPoints\<rfloor> + 1) - i))"
    by simp
next
  fix totalPoints :: real and i :: nat
  fix heightStep :: jsnum and angleStep rad hgt :: real
  fix b1Points b2Points :: "Vector3 list" and rungData :: "Rung list"
  fix p1 p2 :: Vector3
  assume "real i \<le> totalPoints"
  then have "int i \<le> \<lfloor>totalPoints\<rfloor>"
    by (simp add: le_floor_iff)
  then have "nat (\<lfloor>totalPoints\<rfloor> + 1) - Suc i < nat (\<lfloor>totalPoints\<rfloor> + 1) - i"
    by linarith
  then show "((totalPoints, heightStep, angleStep, rad, hgt, Suc i, b1Points @ [p1], b2Points @ [p2],
               if i mod 4 = 0 then rungData @ [\<lparr>rung_start = p1, rung_end = p2\<rparr>] else rungData),
              totalPoints, heightStep, angleStep, rad, hgt, i, b1Points, b2Points, rungData)
             \<in> measure (\<lambda>(totalPoints, _, _, _, _, i, _). nat (\<lfloor>totalPoints\<rfloor> + 1) - i)"
    by simp
qed

text \<open>The callback given to \<^verbatim>\<open>useMemo\<close>.\<close>

definition build_geometry :: "HelixConfig \<Rightarrow> HelixGeometry" where
  "build_geometry c =
     (let totalPoints = turns c * pointsPerTurn;
          heightStep = js_div (Num (height c)) (Num totalPoints);
          angleStep = (pi * 2) / pointsPerTurn
      in case helix_loop totalPoints heightStep angleStep (radius c) (height c) 0 ([], [], []) of
           (b1Points, b2Points, rungData) \<Rightarrow>
             \<lparr>backbone1Curve = CatmullRomCurve3 b1Points,
              backbone2Curve = CatmullRomCurve3 b2Points,
              rungs = rungData\<rparr>)"









section \<open>The mesh assembler of \<^verbatim>\<open>DNAHelix\<close>\<close>

record Quaternion =
  qx :: jsnum
  qy :: jsnum
  qz :: jsnum
  qw :: jsnum

text \<open>\<^verbatim>\<open><tubeGeometry args={[curve, 100, 0.15, 8, false]} />\<close>\<close>

record TubeMesh =
  tube_path :: CatmullRomCurve3
  tubularSegments :: nat
  tube_radius :: real
  tube_radialSegments :: nat
  tube_closed :: bool

text \<open>
  \<^verbatim>\<open><mesh position={mid} quaternion={orientation}>\<close> around
  \<^verbatim>\<open><cylinderGeometry args={[0.08, 0.08, length, 8]} />\<close>.
\<close>

record RungMesh =
  position :: Vector3
  quaternion :: Quaternion
  radiusTop :: real
  radiusBottom :: real
  cylinder_height :: jsnum
  radialSegments :: nat

definition tube :: "CatmullRomCurve3 \<Rightarrow> TubeMesh" where
  "tube curve =
     \<lparr>tube_path = curve, tubularSegments = 100, tube_radius = 0.15,
      tube_radialSegments = 8, tube_closed = False\<rparr>"

text \<open>
  The body of \<^verbatim>\<open>rungs.map\<close>. \<^verbatim>\<open>Vector3.normalize\<close> and
  \<^verbatim>\<open>Quaternion.setFromUnitVectors\<close> are three.js code; they are parameters, so that
  nothing is assumed about what they return, on a zero vector in particular. The
  length is read before \<^verbatim>\<open>normalize\<close> overwrites the direction.
\<close>

definition rung_mesh ::
  "(Vector3 \<Rightarrow> Vector3) \<Rightarrow> (Vector3 \<Rightarrow> Vector3 \<Rightarrow> Quaternion) \<Rightarrow> Rung \<Rightarrow> RungMesh" where
  "rung_mesh normalize' setFromUnitVectors rung =
     (let mid = multiplyScalar (addVectors (rung_start rung) (rung_end rung)) 0.5;
          direction = subVectors (rung_end rung) (rung_start rung);
          length' = vlength direction;
          orientation = setFromUnitVectors \<lparr>vx = Num 0, vy = Num 1, vz = Num 0\<rparr>
                          (normalize' direction)
      in \<lparr>position = mid, quaternion = orientation, radiusTop = 0.08, radiusBottom = 0.08,
          cylinder_height = length', radialSegments = 8\<rparr>)"

record HelixMeshes =
  strand1_mesh :: TubeMesh
  strand2_mesh :: TubeMesh
  rung_meshes :: "RungMesh list"

definition assemble ::
  "(Vector3 \<Rightarrow> Vector3) \<Rightarrow> (Vector3 \<Rightarrow> Vector3 \<Rightarrow> Quaternion) \<Rightarrow> HelixGeometry \<Rightarrow> HelixMeshes"
  where
  "assemble normalize' setFromUnitVectors g =
     \<lparr>strand1_mesh = tube (backbone1Curve g),
      strand2_mesh = tube (backbone2Curve g),
      rung_meshes = map (rung_mesh normalize' setFromUnitVectors) (rungs g)\<rparr>"

section \<open>Memoisation of the geometry\<close>

text \<open>
  React's \<^verbatim>\<open>useMemo(create, deps)\<close>: the cell of the hook holds the dependencies and
  the value of the last computation; \<open>create\<close> runs again only when the dependencies
  differ from the stored ones.
\<close>

definition useMemo :: "(unit \<Rightarrow> 'v) \<Rightarrow> 'd \<Rightarrow> ('d \<times> 'v) option \<Rightarrow> 'v \<times> ('d \<times> 'v) option" where
  "useMemo create deps cell =
     (case cell of
        None \<Rightarrow> (let v = create () in (v, Some (deps, v)))
      | Some (d, v0) \<Rightarrow>
          if d = deps then (v0, cell) else (let v = create () in (v, Some (deps, v))))"

text \<open>
  One render of \<^verbatim>\<open>DNAHelix\<close> up to the destructuring of the memoised value: the
  callback closes over the props, the dependency array is \<^verbatim>\<open>[turns, radius, height]\<close>.
\<close>

definition DNAHelix_geometry ::
  "HelixConfig \<Rightarrow> ((real \<times> real \<times> real) \<times> HelixGeometry) option \<Rightarrow>
   HelixGeometry \<times> ((real \<times> real \<times> real) \<times> HelixGeometry) option" where
  "DNAHelix_geometry c cell =
     useMemo (\<lambda>_. build_geometry c) (turns c, radius c, height c) cell"

text \<open>The hook cell after the component has rendered with each of \<open>cs\<close> in turn.\<close>

definition renders :: "HelixConfig list \<Rightarrow> ((real \<times> real \<times> real) \<times> HelixGeometry) option" where
  "renders cs = foldl (\<lambda>cell c. snd (DNAHelix_geometry c cell)) None cs"

section \<open>The \<^verbatim>\<open>Rotator\<close> component\<close>

text \<open>The \<^verbatim>\<open>rotation\<close> of a three.js object: Euler angles about x, y and z.\<close>

record Euler =
  ex :: real
  ey :: real
  ez :: real

text \<open>A \<^verbatim>\<open><group>\<close>: its rotation and what it contains.\<close>

datatype 'c Group = Group (rotation: Euler) (children: 'c)

text \<open>
  A mounted \<^verbatim>\<open>Rotator\<close>: the outer group, whose child is the inner group, whose
  children are the component's children; and whether \<^verbatim>\<open>groupRef.current\<close> is set,
  which React does with the inner group when it mounts the tree.
\<close>

record 'c RotatorState =
  outer :: "'c Group Group"
  groupRef_current :: bool

definition Rotator :: "'c \<Rightarrow> 'c RotatorState" where
  "Rotator cs =
     \<lparr>outer = Group \<lparr>ex = 0, ey = 0, ez = pi / 6\<rparr> (Group \<lparr>ex = 0, ey = 0, ez = 0\<rparr> cs),
      groupRef_current = True\<rparr>"

text \<open>
  The callback given to \<^verbatim>\<open>useFrame\<close>: \<^verbatim>\<open>groupRef.current\<close> is the inner group, and
  the assignment \<^verbatim>\<open>rotation.y -= delta * 0.5\<close> writes its angle about y.
\<close>

definition frame_tick :: "'c RotatorState \<Rightarrow> real \<Rightarrow> 'c RotatorState" where
  "frame_tick st delta =
     (if groupRef_current st then
        case outer st of
          Group tilt (Group r cs) \<Rightarrow>
            st\<lparr>outer := Group tilt (Group (r\<lparr>ey := ey r - delta * 0.5\<rparr>) cs)\<rparr>
      else st)"

definition run_frames :: "'c RotatorState \<Rightarrow> real list \<Rightarrow> 'c RotatorState" where
  "run_frames st deltas = foldl frame_tick st deltas"


section \<open>The loop in closed form\<close>

declare helix_loop.simps [simp del]











section \<open>The samples of a valid configuration\<close>










section \<open>Rungs\<close>







section \<open>Heights\<close>






section \<open>Rung meshes\<close>




section \<open>Rotation\<close>

lemma frame_tick_attached:
  "frame_tick \<lparr>outer = Group tilt (Group r cs), groupRef_current = True\<rparr> delta =
     \<lparr>outer = Group tilt (Group \<lparr>ex = ex r, ey = ey r - delta * 0.5, ez = ez r\<rparr> cs),
      groupRef_current = True\<rparr>"
  by (simp add: frame_tick_def)

lemma run_frames_attached:
  "run_frames \<lparr>outer = Group tilt (Group r cs), groupRef_current = True\<rparr> deltas =
     \<lparr>outer = Group tilt (Group \<lparr>ex = ex r, ey = ey r - 0.5 * sum_list deltas, ez = ez r\<rparr> cs),
      groupRef_current = True\<rparr>"
proof (induction deltas arbitrary: r)
  case Nil
  show ?case by (simp add: run_frames_def)
next
  case (Cons d ds)
  have "run_frames \<lparr>outer = Group tilt (Group r cs), groupRef_current = True\<rparr> (d # ds) =
        run_frames (frame_tick \<lparr>outer = Group tilt (Group r cs), groupRef_current = True\<rparr> d) ds"
    by (simp add: run_frames_def)
  then show ?case
    by (simp add: frame_tick_attached Cons.IH algebra_simps)
qed

lemma run_frames_Rotator:
  "run_frames (Rotator cs) deltas =
     \<lparr>outer = Group \<lparr>ex = 0, ey = 0, ez = pi / 6\<rparr>
               (Group \<lparr>ex = 0, ey = - 0.5 * sum_list deltas, ez = 0\<rparr> cs),
      groupRef_current = True\<rparr>"
  by (simp add: Rotator_def run_frames_attached)

lemma frame_tick_frame:
  "rotation (outer (frame_tick st delta)) = rotation (outer st) \<and>
   ex (rotation (children (outer (frame_tick st delta)))) = ex (rotation (children (outer st))) \<and>
   ez (rotation (children (outer (frame_tick st delta)))) = ez (rotation (children (outer st))) \<and>
   children (children (outer (frame_tick st delta))) = children (children (outer st)) \<and>
   groupRef_current (frame_tick st delta) = groupRef_current st"
  by (simp add: frame_tick_def split: Group.split)


text \<open>
  C9. The object \<open>Rotator\<close> renders is an outer group tilted by \<open>pi / 6\<close> about the z
  axis, whose child is the inner group that holds the children and starts unrotated.
  A frame tick changes nothing but the inner group's angle about y: the outer rotation,
  the inner angles about x and z and the children stay as they are, after one tick from
  any state and after any run of ticks.
\<close>

theorem tilt_outside_spin:
  "outer (Rotator cs) =
     Group \<lparr>ex = 0, ey = 0, ez = pi / 6\<rparr> (Group \<lparr>ex = 0, ey = 0, ez = 0\<rparr> cs) \<and>
   rotation (outer (frame_tick st delta)) = rotation (outer st) \<and>
   ex (rotation (children (outer (frame_tick st delta)))) = ex (rotation (children (outer st))) \<and>
   ez (rotation (children (outer (frame_tick st delta)))) = ez (rotation (children (outer st))) \<and>
   children (children (outer (frame_tick st delta))) = children (children (outer st)) \<and>
   outer (run_frames (Rotator cs) deltas) =
     Group \<lparr>ex = 0, ey = 0, ez = pi / 6\<rparr>
       (Group \<lparr>ex = 0, ey = - 0.5 * sum_list deltas, ez = 0\<rparr> cs)"
  using frame_tick_frame [of st delta]
  by (simp add: run_frames_Rotator) (simp add: Rotator_def)

section \<open>Memoised renders\<close>

lemma renders_snoc: "renders (cs @ [c]) = snd (DNAHelix_geometry c (renders cs))"
  by (simp add: renders_def)

lemma DNAHelix_geometry_fresh:
  "DNAHelix_geometry c None =
     (build_geometry c, Some ((turns c, radius c, height c), build_geometry c))"
  by (simp add: DNAHelix_geometry_def useMemo_def Let_def)

lemma DNAHelix_geometry_cached:
  "DNAHelix_geometry c (Some ((turns c', radius c', height c'), build_geometry c')) =
     (build_geometry c, Some ((turns c, radius c, height c), build_geometry c))"
proof (cases "(turns c', radius c', height c') = (turns c, radius c, height c)")
  case True
  then have "c' = c" by simp
  then show ?thesis by (simp add: DNAHelix_geometry_def useMemo_def Let_def)
next
  case False
  then show ?thesis by (auto simp add: DNAHelix_geometry_def useMemo_def Let_def)
qed

lemma renders_cell:
  "renders cs =
     (if cs = [] then None
      else Some ((turns (last cs), radius (last cs), height (last cs)), build_geometry (last cs)))"
proof (induction cs rule: rev_induct)
  case Nil
  show ?case by (simp add: renders_def)
next
  case (snoc c cs)
  show ?case
    by (simp add: renders_snoc snoc.IH DNAHelix_geometry_fresh DNAHelix_geometry_cached)
qed

lemma DNAHelix_geometry_renders:
  "DNAHelix_geometry c (renders cs) =
     (build_geometry c, Some ((turns c, radius c, height c), build_geometry c))"
  by (simp add: renders_cell DNAHelix_geometry_fresh DNAHelix_geometry_cached)

text \<open>
  C8. The geometry a render of the component gets for a configuration \<open>c\<close> is the value
  of the builder at \<open>c\<close>, whatever the component rendered before (whether the memo cell is
  empty, holds the geometry of \<open>c\<close> or that of another configuration). So two evaluations
  on \<open>c\<close> give the same strand point sequences and the same rung list.
\<close>

theorem determinism:
  "fst (DNAHelix_geometry c (renders cs)) = build_geometry c \<and>
   points (backbone1Curve (fst (DNAHelix_geometry c (renders cs)))) =
     points (backbone1Curve (fst (DNAHelix_geometry c (renders cs')))) \<and>
   points (backbone2Curve (fst (DNAHelix_geometry c (renders cs)))) =
     points (backbone2Curve (fst (DNAHelix_geometry c (renders cs')))) \<and>
   rungs (fst (DNAHelix_geometry c (renders cs))) =
     rungs (fst (DNAHelix_geometry c (renders cs')))"
  by (simp add: DNAHelix_geometry_renders)

section \<open>Degenerate rungs\<close>

text \<open>
  C7, as the code has it. The assembler has no case for a rung whose start equals its
  end: it runs the same steps as for any rung. For finite coordinates the mesh is placed
  at the point itself, its orientation is what \<open>setFromUnitVectors\<close> returns for the up
  axis and the normalised zero vector, its length is \<open>0\<close> and its radius is \<open>0.08\<close>.
\<close>

theorem degenerate_rung:
  assumes "rung_start rung = \<lparr>vx = Num a, vy = Num b, vz = Num d\<rparr>"
    and "rung_end rung = rung_start rung"
  shows "rung_mesh normalize' setFromUnitVectors rung =
           \<lparr>position = rung_start rung,
            quaternion = setFromUnitVectors \<lparr>vx = Num 0, vy = Num 1, vz = Num 0\<rparr>
                           (normalize' \<lparr>vx = Num 0, vy = Num 0, vz = Num 0\<rparr>),
            radiusTop = 0.08, radiusBottom = 0.08,
            cylinder_height = Num 0, radialSegments = 8\<rparr>"
  using assms
  by (simp add: rung_mesh_def Let_def addVectors_def subVectors_def multiplyScalar_def
      vlength_def js_sub_def)

theorem degenerate_rung_witness:
  "rung_mesh id (\<lambda>u v. \<lparr>qx = vx v, qy = vy v, qz = vz v, qw = Num 1\<rparr>)
     \<lparr>rung_start = \<lparr>vx = Num 1, vy = Num 2, vz = Num 3\<rparr>,
      rung_end = \<lparr>vx = Num 1, vy = Num 2, vz = Num 3\<rparr>\<rparr> =
     \<lparr>position = \<lparr>vx = Num 1, vy = Num 2, vz = Num 3\<rparr>,
      quaternion = \<lparr>qx = Num 0, qy = Num 0, qz = Num 0, qw = Num 1\<rparr>,
      radiusTop = 0.08, radiusBottom = 0.08, cylinder_height = Num 0, radialSegments = 8\<rparr>"
  using degenerate_rung [of "\<lparr>rung_start = \<lparr>vx = Num 1, vy = Num 2, vz = Num 3\<rparr>,
      rung_end = \<lparr>vx = Num 1, vy = Num 2, vz = Num 3\<rparr>\<rparr>" 1 2 3 id
      "\<lambda>u v. \<lparr>qx = vx v, qy = vy v, qz = vz v, qw = Num 1\<rparr>"]
  by simp

text \<open>
  The rung from the origin to the origin: the orientation step runs on it (the
  quaternion is the library's answer on the normalised zero vector, whatever the library
  is), and the cylinder keeps the radius \<open>0.08\<close>.
\<close>

theorem degenerate_rung_counterexample:
  "\<forall>normalize' setFromUnitVectors.
     quaternion (rung_mesh normalize' setFromUnitVectors
        \<lparr>rung_start = \<lparr>vx = Num 0, vy = Num 0, vz = Num 0\<rparr>,
         rung_end = \<lparr>vx = Num 0, vy = Num 0, vz = Num 0\<rparr>\<rparr>) =
       setFromUnitVectors \<lparr>vx = Num 0, vy = Num 1, vz = Num 0\<rparr>
         (normalize' \<lparr>vx = Num 0, vy = Num 0, vz = Num 0\<rparr>) \<and>
     radiusTop (rung_mesh normalize' setFromUnitVectors
        \<lparr>rung_start = \<lparr>vx = Num 0, vy = Num 0, vz = Num 0\<rparr>,
         rung_end = \<lparr>vx = Num 0, vy = Num 0, vz = Num 0\<rparr>\<rparr>) \<noteq> 0 \<and>
     radiusBottom (rung_mesh normalize' setFromUnitVectors
        \<lparr>rung_start = \<lparr>vx = Num 0, vy = Num 0, vz = Num 0\<rparr>,
         rung_end = \<lparr>vx = Num 0, vy = Num 0, vz = Num 0\<rparr>\<rparr>) \<noteq> 0"
  by (simp add: rung_mesh_def Let_def subVectors_def js_sub_def)

section \<open>Configurations that are not valid\<close>






end
